theory Spec2Isabelle
  imports Main
begin

section \<open>Request values\<close>

text \<open>
  A property of a request body (or of the query string) is either missing, which
  JavaScript reads as \<^verbatim>\<open>undefined\<close>, or \<^verbatim>\<open>null\<close>, or a value. Bodies are read
  at the types the data model gives the fields: strings for \<open>name\<close>, \<open>source\<close>,
  \<open>salesAgent\<close> (an id in its textual form), \<open>status\<close>, \<open>priority\<close>, \<open>email\<close>,
  \<open>commentText\<close> and \<open>author\<close>, a number for \<open>timeToClose\<close>, an array of strings for
  \<open>tags\<close>. A body that puts a value of another type at a field is outside the model.
\<close>

datatype 'a property = Undefined | Null | Val 'a

text \<open>
  The operand of \<^verbatim>\<open>!x\<close> is converted to a boolean: \<^verbatim>\<open>undefined\<close>, \<^verbatim>\<open>null\<close>, the
  empty string and the number 0 are falsy; every array, the empty one included, is truthy.
\<close>

fun truthy_str :: "string property \<Rightarrow> bool" where
  "truthy_str (Val s) = (s \<noteq> [])"
| "truthy_str Undefined = False"
| "truthy_str Null = False"

fun truthy_num :: "int property \<Rightarrow> bool" where
  "truthy_num (Val n) = (n \<noteq> 0)"
| "truthy_num Undefined = False"
| "truthy_num Null = False"

fun truthy_arr :: "'a list property \<Rightarrow> bool" where
  "truthy_arr (Val xs) = True"
| "truthy_arr Undefined = False"
| "truthy_arr Null = False"

section \<open>Errors\<close>

text \<open>
  Every function of \<^verbatim>\<open>index.js\<close> throws \<^verbatim>\<open>new Error(message)\<close>, logs what it catches
  and throws it again. The store adds one failure of its own: a value that is used as an id
  and is not the text of an ObjectId is refused with a cast error that names the value, the
  path and the model.
\<close>

datatype error = Error string | CastError string string string

fun message :: "error \<Rightarrow> string" where
  "message (Error m) = m"
| "message (CastError v p m) =
     ''Cast to ObjectId failed for value \"'' @ v @ ''\" (type string) at path \"'' @ p
       @ ''\" for model \"'' @ m @ ''\"''"

section \<open>Documents and the store\<close>

type_synonym oid = nat

text \<open>The text of an ObjectId is 24 hexadecimal digits; the id is the number they write.\<close>

definition hexDigit :: "char \<Rightarrow> nat option" where
  "hexDigit c = map_of
     [(CHR ''0'', 0), (CHR ''1'', 1), (CHR ''2'', 2), (CHR ''3'', 3), (CHR ''4'', 4),
      (CHR ''5'', 5), (CHR ''6'', 6), (CHR ''7'', 7), (CHR ''8'', 8), (CHR ''9'', 9),
      (CHR ''a'', 10), (CHR ''b'', 11), (CHR ''c'', 12), (CHR ''d'', 13), (CHR ''e'', 14),
      (CHR ''f'', 15), (CHR ''A'', 10), (CHR ''B'', 11), (CHR ''C'', 12), (CHR ''D'', 13),
      (CHR ''E'', 14), (CHR ''F'', 15)] c"

fun hexValue :: "nat \<Rightarrow> string \<Rightarrow> nat option" where
  "hexValue n [] = Some n"
| "hexValue n (c # cs) =
     (case hexDigit c of None \<Rightarrow> None | Some d \<Rightarrow> hexValue (16 * n + d) cs)"

definition castObjectId :: "string \<Rightarrow> oid option" where
  "castObjectId s = (if length s = 24 then hexValue 0 s else None)"

text \<open>
  The three models. \<^verbatim>\<open>index.js\<close> gives a Lead the seven fields of the request body; the
  record is parametric in what stands at \<open>salesAgent\<close>: the text of the request, the
  ObjectId of the stored document, or the agent's document once the reference is populated.
\<close>

record 'r lead_fields =
  name :: "string property"
  source :: "string property"
  salesAgent :: 'r
  status :: "string property"
  timeToClose :: "int property"
  priority :: "string property"
  tags :: "string list property"

record 'r lead = "'r lead_fields" +
  lead_id :: oid

record agent_fields =
  agent_name :: "string property"
  agent_email :: "string property"

record agent = agent_fields +
  agent_id :: oid

record comment_fields =
  commentText :: "string property"
  author :: "string property"

record comment =
  comment_id :: oid
  comment_lead :: "oid property"
  comment_text :: "string property"
  comment_author :: "oid property"

record store =
  leads :: "oid property lead list"
  agents :: "agent list"
  comments :: "comment list"

text \<open>
  Modelled from the spec: the models \<^verbatim>\<open>./models/lead.model\<close>, \<^verbatim>\<open>./models/salesAgent.model\<close>
  and \<^verbatim>\<open>./models/comment.model\<close> and the document store behind them are not part of the
  source. A collection is the list of its documents in insertion order; a new document gets
  an id no document of its collection has; a query on an id casts the value first
  (the spec's malformed id) and a query for a missing or null id finds nothing; saving casts
  the reference fields and appends the document; populating replaces a reference by the
  document it names, or by \<^verbatim>\<open>null\<close> when there is none.
\<close>

definition newObjectId :: "oid list \<Rightarrow> oid" where
  "newObjectId ids = Suc (fold max ids 0)"

definition SalesAgent_byId :: "store \<Rightarrow> oid \<Rightarrow> agent option" where
  "SalesAgent_byId st i = find (\<lambda>a. agent_id a = i) (agents st)"

definition Lead_byId :: "store \<Rightarrow> oid \<Rightarrow> oid property lead option" where
  "Lead_byId st i = find (\<lambda>l. lead_id l = i) (leads st)"

fun SalesAgent_findById :: "store \<Rightarrow> string property \<Rightarrow> error + agent option" where
  "SalesAgent_findById st (Val s) =
     (case castObjectId s of
        None \<Rightarrow> Inl (CastError s ''_id'' ''SalesAgent'')
      | Some i \<Rightarrow> Inr (SalesAgent_byId st i))"
| "SalesAgent_findById st Undefined = Inr None"
| "SalesAgent_findById st Null = Inr None"

definition Lead_findById :: "store \<Rightarrow> string \<Rightarrow> error + oid property lead option" where
  "Lead_findById st s =
     (case castObjectId s of
        None \<Rightarrow> Inl (CastError s ''_id'' ''Lead'')
      | Some i \<Rightarrow> Inr (Lead_byId st i))"

definition SalesAgent_findOne_email :: "store \<Rightarrow> string property \<Rightarrow> agent option" where
  "SalesAgent_findOne_email st e = find (\<lambda>a. agent_email a = e) (agents st)"

fun castRef :: "string \<Rightarrow> string \<Rightarrow> string property \<Rightarrow> error + oid property" where
  "castRef p m (Val s) =
     (case castObjectId s of
        None \<Rightarrow> Inl (CastError s p m)
      | Some i \<Rightarrow> Inr (Val i))"
| "castRef p m Undefined = Inr Undefined"
| "castRef p m Null = Inr Null"

fun resolve :: "store \<Rightarrow> oid property \<Rightarrow> agent property" where
  "resolve st (Val i) = (case SalesAgent_byId st i of None \<Rightarrow> Null | Some a \<Rightarrow> Val a)"
| "resolve st Undefined = Undefined"
| "resolve st Null = Null"

definition populate :: "store \<Rightarrow> oid property lead \<Rightarrow> agent property lead" where
  "populate st l =
     \<lparr>name = name l, source = source l, salesAgent = resolve st (salesAgent l),
      status = status l, timeToClose = timeToClose l, priority = priority l,
      tags = tags l, lead_id = lead_id l\<rparr>"

definition new_Lead :: "store \<Rightarrow> string property lead_fields \<Rightarrow> string property lead" where
  "new_Lead st d =
     \<lparr>name = name d, source = source d, salesAgent = salesAgent d, status = status d,
      timeToClose = timeToClose d, priority = priority d, tags = tags d,
      lead_id = newObjectId (map lead_id (leads st))\<rparr>"

definition Lead_save :: "store \<Rightarrow> string property lead \<Rightarrow> (error + unit) \<times> store" where
  "Lead_save st l =
     (case castRef ''salesAgent'' ''Lead'' (salesAgent l) of
        Inl e \<Rightarrow> (Inl e, st)
      | Inr r \<Rightarrow>
          (Inr (),
           st\<lparr>leads := leads st @
             [\<lparr>name = name l, source = source l, salesAgent = r, status = status l,
               timeToClose = timeToClose l, priority = priority l, tags = tags l,
               lead_id = lead_id l\<rparr>]\<rparr>))"

fun replaceFirst :: "('a \<Rightarrow> bool) \<Rightarrow> 'a \<Rightarrow> 'a list \<Rightarrow> 'a list" where
  "replaceFirst p y [] = []"
| "replaceFirst p y (x # xs) = (if p x then y # xs else x # replaceFirst p y xs)"

definition Lead_findByIdAndUpdate ::
  "store \<Rightarrow> string \<Rightarrow> string property lead_fields \<Rightarrow> (error + oid property lead option) \<times> store" where
  "Lead_findByIdAndUpdate st leadId upd =
     (case castObjectId leadId of
        None \<Rightarrow> (Inl (CastError leadId ''_id'' ''Lead''), st)
      | Some i \<Rightarrow>
          (case castRef ''salesAgent'' ''Lead'' (salesAgent upd) of
             Inl e \<Rightarrow> (Inl e, st)
           | Inr r \<Rightarrow>
               (case Lead_byId st i of
                  None \<Rightarrow> (Inr None, st)
                | Some l \<Rightarrow>
                    (let l' = l\<lparr>name := name upd, source := source upd, salesAgent := r,
                                status := status upd, timeToClose := timeToClose upd,
                                priority := priority upd, tags := tags upd\<rparr>
                     in (Inr (Some l'),
                         st\<lparr>leads := replaceFirst (\<lambda>x. lead_id x = i) l' (leads st)\<rparr>)))))"

section \<open>Lead routes\<close>

text \<open>\<^verbatim>\<open>createLead(data)\<close>, lines 23 to 57.\<close>

definition createLead ::
  "store \<Rightarrow> string property lead_fields \<Rightarrow> (error + agent property lead option) \<times> store" where
  "createLead st data =
     (if \<not> truthy_str (name data) \<or> \<not> truthy_str (source data) \<or>
         \<not> truthy_str (salesAgent data) \<or> \<not> truthy_str (status data) \<or>
         \<not> truthy_num (timeToClose data) \<or> \<not> truthy_str (priority data) \<or>
         \<not> truthy_arr (tags data)
      then (Inl (Error ''All fields are required''), st)
      else
        (case SalesAgent_findById st (salesAgent data) of
           Inl e \<Rightarrow> (Inl e, st)
         | Inr None \<Rightarrow> (Inl (Error ''Sales agent not found''), st)
         | Inr (Some agentExists) \<Rightarrow>
             (let lead = new_Lead st data in
              case Lead_save st lead of
                (Inl e, st') \<Rightarrow> (Inl e, st')
              | (Inr u, st') \<Rightarrow>
                  (Inr (map_option (populate st') (Lead_byId st' (lead_id lead))), st'))))"

text \<open>\<^verbatim>\<open>updateLeadById(leadId, data)\<close>, lines 128 to 157.\<close>

definition updateLeadById ::
  "store \<Rightarrow> string \<Rightarrow> string property lead_fields \<Rightarrow> (error + agent property lead option) \<times> store" where
  "updateLeadById st leadId data =
     (if \<not> truthy_str (name data) \<or> \<not> truthy_str (source data) \<or>
         \<not> truthy_str (salesAgent data) \<or> \<not> truthy_str (status data) \<or>
         \<not> truthy_num (timeToClose data) \<or> \<not> truthy_str (priority data) \<or>
         \<not> truthy_arr (tags data)
      then (Inl (Error ''All fields are required''), st)
      else
        (case SalesAgent_findById st (salesAgent data) of
           Inl e \<Rightarrow> (Inl e, st)
         | Inr None \<Rightarrow> (Inl (Error ''Sales agent not found''), st)
         | Inr (Some agentExists) \<Rightarrow>
             (case Lead_findByIdAndUpdate st leadId data of
                (Inl e, st') \<Rightarrow> (Inl e, st')
              | (Inr lead, st') \<Rightarrow> (Inr (map_option (populate st') lead), st'))))"

text \<open>\<^verbatim>\<open>readAllLeads(queryParams)\<close>, lines 71 to 84. A filter maps a path to a value
  (equality) or to \<^verbatim>\<open>{ $ne: value }\<close>.\<close>

datatype qval = Eq string | Ne string

type_synonym query = "(string \<times> qval) list"

fun qarg :: "qval \<Rightarrow> string" where
  "qarg (Eq v) = v"
| "qarg (Ne v) = v"

fun qtest :: "qval \<Rightarrow> bool \<Rightarrow> bool" where
  "qtest (Eq v) b = b"
| "qtest (Ne v) b = (\<not> b)"

definition Lead_path :: "string \<Rightarrow> oid property lead \<Rightarrow> string property" where
  "Lead_path p l =
     (if p = ''name'' then name l
      else if p = ''source'' then source l
      else if p = ''status'' then status l
      else if p = ''priority'' then priority l
      else Undefined)"

definition castCond :: "string \<times> qval \<Rightarrow> error + (oid property lead \<Rightarrow> bool)" where
  "castCond c =
     (if fst c = ''salesAgent''
      then (case castObjectId (qarg (snd c)) of
              None \<Rightarrow> Inl (CastError (qarg (snd c)) ''salesAgent'' ''Lead'')
            | Some i \<Rightarrow> Inr (\<lambda>l. qtest (snd c) (salesAgent l = Val i)))
      else Inr (\<lambda>l. qtest (snd c) (Lead_path (fst c) l = Val (qarg (snd c)))))"

fun castQuery :: "query \<Rightarrow> error + (oid property lead \<Rightarrow> bool) list" where
  "castQuery [] = Inr []"
| "castQuery (c # cs) =
     (case castCond c of
        Inl e \<Rightarrow> Inl e
      | Inr f \<Rightarrow> (case castQuery cs of Inl e \<Rightarrow> Inl e | Inr fs \<Rightarrow> Inr (f # fs)))"

definition Lead_find :: "store \<Rightarrow> query \<Rightarrow> error + oid property lead list" where
  "Lead_find st q =
     (case castQuery q of
        Inl e \<Rightarrow> Inl e
      | Inr fs \<Rightarrow> Inr (filter (\<lambda>l. list_all (\<lambda>f. f l) fs) (leads st)))"

definition Lead_countDocuments :: "store \<Rightarrow> query \<Rightarrow> error + nat" where
  "Lead_countDocuments st q =
     (case Lead_find st q of Inl e \<Rightarrow> Inl e | Inr ls \<Rightarrow> Inr (length ls))"

text \<open>\<^verbatim>\<open>if (x) query.k = x\<close>: the key is set when the parameter is truthy.\<close>

fun assignIf :: "string \<Rightarrow> string property \<Rightarrow> query \<Rightarrow> query" where
  "assignIf k (Val v) q = (if v \<noteq> [] then q @ [(k, Eq v)] else q)"
| "assignIf k Undefined q = q"
| "assignIf k Null q = q"

definition readAllLeads ::
  "store \<Rightarrow> (string \<Rightarrow> string property) \<Rightarrow> error + agent property lead list" where
  "readAllLeads st queryParams =
     (let query = [];
          query = assignIf ''salesAgent'' (queryParams ''salesAgent'') query;
          query = assignIf ''status'' (queryParams ''status'') query;
          query = assignIf ''source'' (queryParams ''source'') query
      in case Lead_find st query of
           Inl e \<Rightarrow> Inl e
         | Inr ls \<Rightarrow> Inr (map (populate st) ls))"

text \<open>The route \<^verbatim>\<open>POST /leads/:id\<close>, lines 159 to 170: the status and the JSON sent.\<close>

datatype 'a reply = Json nat 'a | JsonError nat string

definition post_leads_id ::
  "store \<Rightarrow> string \<Rightarrow> string property lead_fields \<Rightarrow> agent property lead reply \<times> store" where
  "post_leads_id st id_param body =
     (case updateLeadById st id_param body of
        (Inr (Some lead), st') \<Rightarrow> (Json 200 lead, st')
      | (Inr None, st') \<Rightarrow> (JsonError 404 ''Lead not found'', st')
      | (Inl e, st') \<Rightarrow> (JsonError 400 (message e), st'))"

section \<open>Sales agent routes\<close>

text \<open>\<^verbatim>\<open>createSalesAgent(data)\<close>, lines 200 to 217, and \<^verbatim>\<open>readAllSalesAgents()\<close>.\<close>

definition createSalesAgent :: "store \<Rightarrow> agent_fields \<Rightarrow> (error + agent) \<times> store" where
  "createSalesAgent st data =
     (if \<not> truthy_str (agent_name data) \<or> \<not> truthy_str (agent_email data)
      then (Inl (Error ''Name and email are required''), st)
      else
        (case SalesAgent_findOne_email st (agent_email data) of
           Some agentExists \<Rightarrow> (Inl (Error ''Sales agent with this email already exists''), st)
         | None \<Rightarrow>
             (let agent = \<lparr>agent_name = agent_name data, agent_email = agent_email data,
                            agent_id = newObjectId (map agent_id (agents st))\<rparr>
              in (Inr agent, st\<lparr>agents := agents st @ [agent]\<rparr>))))"

definition readAllSalesAgents :: "store \<Rightarrow> agent list" where
  "readAllSalesAgents st = agents st"

section \<open>Comment routes\<close>

text \<open>\<^verbatim>\<open>createComment(leadId, data)\<close>, lines 256 to 277.\<close>

definition Comment_save :: "store \<Rightarrow> string \<Rightarrow> comment_fields \<Rightarrow> (error + comment) \<times> store" where
  "Comment_save st leadId d =
     (case castRef ''lead'' ''Comment'' (Val leadId) of
        Inl e \<Rightarrow> (Inl e, st)
      | Inr l \<Rightarrow>
          (case castRef ''author'' ''Comment'' (author d) of
             Inl e \<Rightarrow> (Inl e, st)
           | Inr a \<Rightarrow>
               (let comment = \<lparr>comment_id = newObjectId (map comment_id (comments st)),
                                comment_lead = l, comment_text = commentText d,
                                comment_author = a\<rparr>
                in (Inr comment, st\<lparr>comments := comments st @ [comment]\<rparr>))))"

definition createComment :: "store \<Rightarrow> string \<Rightarrow> comment_fields \<Rightarrow> (error + comment) \<times> store" where
  "createComment st leadId data =
     (if \<not> truthy_str (commentText data) \<or> \<not> truthy_str (author data)
      then (Inl (Error ''Comment text and author are required''), st)
      else
        (case Lead_findById st leadId of
           Inl e \<Rightarrow> (Inl e, st)
         | Inr None \<Rightarrow> (Inl (Error ''Lead not found''), st)
         | Inr (Some leadExists) \<Rightarrow>
             (case SalesAgent_findById st (author data) of
                Inl e \<Rightarrow> (Inl e, st)
              | Inr None \<Rightarrow> (Inl (Error ''Author not found''), st)
              | Inr (Some authorExists) \<Rightarrow> Comment_save st leadId data)))"

section \<open>Reporting routes\<close>

text \<open>\<^verbatim>\<open>readPipelineReport()\<close>, lines 345 to 353.\<close>

record pipeline_report =
  totalLeadsInPipeline :: nat

definition readPipelineReport :: "store \<Rightarrow> error + pipeline_report" where
  "readPipelineReport st =
     (case Lead_countDocuments st [(''status'', Ne ''Closed'')] of
        Inl e \<Rightarrow> Inl e
      | Inr totalLeads \<Rightarrow> Inr \<lparr>totalLeadsInPipeline = totalLeads\<rparr>)"

text \<open>
  \<^verbatim>\<open>readClosedLeadsByAgent()\<close>, lines 365 to 397: the five stages of the aggregation.
  \<^verbatim>\<open>$group\<close> yields one document for each distinct key with the number of documents that
  have it; the store leaves the order of the groups open, here it is that of \<open>remdups\<close>.
  \<^verbatim>\<open>$lookup\<close> attaches the array of the agents whose id is the key, \<^verbatim>\<open>$unwind\<close> yields
  one document for each element of that array (none when it is empty), \<^verbatim>\<open>$project\<close>
  keeps the count and the agent's name.
\<close>

record closed_by_agent =
  report_salesAgent :: "string property"
  report_count :: nat

definition match_status :: "string \<Rightarrow> oid property lead list \<Rightarrow> oid property lead list" where
  "match_status v ls = filter (\<lambda>l. status l = Val v) ls"

definition group_salesAgent :: "oid property lead list \<Rightarrow> (oid property \<times> nat) list" where
  "group_salesAgent ls =
     map (\<lambda>k. (k, length (filter (\<lambda>l. salesAgent l = k) ls))) (remdups (map salesAgent ls))"

definition lookup_salesagents ::
  "store \<Rightarrow> (oid property \<times> nat) list \<Rightarrow> (oid property \<times> nat \<times> agent list) list" where
  "lookup_salesagents st gs =
     map (\<lambda>(k, n). (k, n, filter (\<lambda>a. Val (agent_id a) = k) (agents st))) gs"

definition unwind_salesAgent ::
  "(oid property \<times> nat \<times> agent list) list \<Rightarrow> (oid property \<times> nat \<times> agent) list" where
  "unwind_salesAgent gs = concat (map (\<lambda>(k, n, as). map (\<lambda>a. (k, n, a)) as) gs)"

definition project_report :: "(oid property \<times> nat \<times> agent) list \<Rightarrow> closed_by_agent list" where
  "project_report gs =
     map (\<lambda>(k, n, a). \<lparr>report_salesAgent = agent_name a, report_count = n\<rparr>) gs"

definition readClosedLeadsByAgent :: "store \<Rightarrow> closed_by_agent list" where
  "readClosedLeadsByAgent st =
     project_report (unwind_salesAgent (lookup_salesagents st
       (group_salesAgent (match_status ''Closed'' (leads st)))))"

section \<open>What the reports and the listing are compared with\<close>

text \<open>
  The spec's words for the listing: a conjunction of equality predicates over the supplied
  keys. A key counts when its parameter has a non-empty value; \<open>salesAgent\<close> is compared
  with the id that the parameter writes.
\<close>

fun keyHolds :: "string property \<Rightarrow> (string \<Rightarrow> bool) \<Rightarrow> bool" where
  "keyHolds (Val v) P = (v = [] \<or> P v)"
| "keyHolds Undefined P = True"
| "keyHolds Null P = True"

definition satisfies_filters :: "(string \<Rightarrow> string property) \<Rightarrow> oid property lead \<Rightarrow> bool" where
  "satisfies_filters q l =
     (keyHolds (q ''salesAgent'')
        (\<lambda>v. case castObjectId v of None \<Rightarrow> False | Some i \<Rightarrow> salesAgent l = Val i) \<and>
      keyHolds (q ''status'') (\<lambda>v. status l = Val v) \<and>
      keyHolds (q ''source'') (\<lambda>v. source l = Val v))"

text \<open>The number of Closed leads of the agent with a given id.\<close>

definition closedLeads :: "store \<Rightarrow> oid \<Rightarrow> nat" where
  "closedLeads st i =
     length (filter (\<lambda>l. status l = Val ''Closed'' \<and> salesAgent l = Val i) (leads st))"

section \<open>A store and requests to run the functions on\<close>

definition oid1 :: string where
  "oid1 = ''000000000000000000000001''"

definition oid2 :: string where
  "oid2 = ''000000000000000000000002''"

definition agent1 :: agent where
  "agent1 = \<lparr>agent_name = Val ''Asha'', agent_email = Val ''asha@example.com'', agent_id = 1\<rparr>"

definition lead1 :: "oid property lead" where
  "lead1 = \<lparr>name = Val ''Acme'', source = Val ''Website'', salesAgent = Val 1,
            status = Val ''New'', timeToClose = Val 30, priority = Val ''High'',
            tags = Val [''vip''], lead_id = 1\<rparr>"

definition store1 :: store where
  "store1 = \<lparr>leads = [lead1], agents = [agent1], comments = []\<rparr>"

definition store0 :: store where
  "store0 = \<lparr>leads = [], agents = [], comments = []\<rparr>"

definition agentA :: agent where
  "agentA = \<lparr>agent_name = Val ''A'', agent_email = Val ''a@x.com'', agent_id = 1\<rparr>"

definition storeA :: store where
  "storeA = \<lparr>leads = [], agents = [agentA], comments = []\<rparr>"

definition agent2 :: agent where
  "agent2 = \<lparr>agent_name = Val ''Bo'', agent_email = Val ''bo@example.com'', agent_id = 2\<rparr>"

definition lead2 :: "oid property lead" where
  "lead2 = \<lparr>name = Val ''Birch'', source = Val ''Referral'', salesAgent = Val 1,
            status = Val ''Closed'', timeToClose = Val 5, priority = Val ''Low'',
            tags = Val [], lead_id = 2\<rparr>"

definition lead3 :: "oid property lead" where
  "lead3 = \<lparr>name = Val ''Cedar'', source = Val ''Website'', salesAgent = Val 1,
            status = Val ''Closed'', timeToClose = Val 9, priority = Val ''High'',
            tags = Val [''new''], lead_id = 3\<rparr>"

definition lead4 :: "oid property lead" where
  "lead4 = \<lparr>name = Val ''Dune'', source = Val ''Website'', salesAgent = Val 2,
            status = Val ''New'', timeToClose = Val 14, priority = Val ''Medium'',
            tags = Val [], lead_id = 4\<rparr>"

definition store2 :: store where
  "store2 = \<lparr>leads = [lead1, lead2, lead3, lead4], agents = [agent1, agent2], comments = []\<rparr>"

definition body1 :: "string property lead_fields" where
  "body1 = \<lparr>name = Val ''Acme Ltd'', source = Val ''Referral'', salesAgent = Val oid1,
            status = Val ''Closed'', timeToClose = Val 7, priority = Val ''Low'',
            tags = Val [''vip'']\<rparr>"

lemma castObjectId_oid1 [simp]: "castObjectId oid1 = Some 1"
  by (simp add: castObjectId_def oid1_def hexDigit_def)

lemma castObjectId_oid2 [simp]: "castObjectId oid2 = Some 2"
  by (simp add: castObjectId_def oid2_def hexDigit_def)

lemma castObjectId_abc [simp]: "castObjectId ''abc'' = None"
  by (simp add: castObjectId_def)

lemma oid_texts [simp]: "oid1 \<noteq> []" "oid2 \<noteq> []" "oid1 \<noteq> oid2"
  by (simp_all add: oid1_def oid2_def)

section \<open>The required-field check\<close>




lemma createLead_required:
  "\<not> (truthy_str (name data) \<and> truthy_str (source data) \<and> truthy_str (salesAgent data) \<and>
      truthy_str (status data) \<and> truthy_num (timeToClose data) \<and>
      truthy_str (priority data) \<and> truthy_arr (tags data)) \<Longrightarrow>
   createLead st data = (Inl (Error ''All fields are required''), st)"
  unfolding createLead_def by (simp only: de_Morgan_conj if_True)

lemma updateLeadById_required:
  "\<not> (truthy_str (name data) \<and> truthy_str (source data) \<and> truthy_str (salesAgent data) \<and>
      truthy_str (status data) \<and> truthy_num (timeToClose data) \<and>
      truthy_str (priority data) \<and> truthy_arr (tags data)) \<Longrightarrow>
   updateLeadById st leadId data = (Inl (Error ''All fields are required''), st)"
  unfolding updateLeadById_def by (simp only: de_Morgan_conj if_True)

lemma createSalesAgent_required:
  "\<not> (truthy_str (agent_name data) \<and> truthy_str (agent_email data)) \<Longrightarrow>
   createSalesAgent st data = (Inl (Error ''Name and email are required''), st)"
  unfolding createSalesAgent_def by (simp only: de_Morgan_conj if_True)

lemma createComment_required:
  "\<not> (truthy_str (commentText data) \<and> truthy_str (author data)) \<Longrightarrow>
   createComment st leadId data = (Inl (Error ''Comment text and author are required''), st)"
  unfolding createComment_def by (simp only: de_Morgan_conj if_True)

text \<open>
  C10: a create-lead or update-lead request whose \<open>timeToClose\<close> is the number 0 fails with
  the error "All fields are required" (the check is \<^verbatim>\<open>!timeToClose\<close>, and 0 is falsy), whatever
  the other fields, the target and the store are; the store is left as it was.
\<close>

theorem timeToClose_zero_rejected:
  assumes "timeToClose data = Val 0"
  shows "createLead st data = (Inl (Error ''All fields are required''), st) \<and>
         updateLeadById st leadId data = (Inl (Error ''All fields are required''), st)"
  using assms by (simp add: createLead_required updateLeadById_required)

theorem timeToClose_zero_rejected_witness:
  "createLead store1 (body1\<lparr>timeToClose := Val 0\<rparr>)
     = (Inl (Error ''All fields are required''), store1) \<and>
   updateLeadById store1 oid1 (body1\<lparr>timeToClose := Val 0\<rparr>)
     = (Inl (Error ''All fields are required''), store1)"
  using timeToClose_zero_rejected [of "body1\<lparr>timeToClose := Val 0\<rparr>" store1 oid1]
  by simp

text \<open>
  C8: in each of the four write operations the required-field check comes first. A request
  that lacks a mandatory field (or has it null, empty or 0) fails with the operation's
  required-field error in every store and with every value of its other fields, so also
  when a reference in it names no document or its email is already taken.
\<close>

theorem required_check_precedes_references:
  "(\<not> (truthy_str (name d) \<and> truthy_str (source d) \<and> truthy_str (salesAgent d) \<and>
       truthy_str (status d) \<and> truthy_num (timeToClose d) \<and>
       truthy_str (priority d) \<and> truthy_arr (tags d)) \<longrightarrow>
      createLead st d = (Inl (Error ''All fields are required''), st) \<and>
      updateLeadById st leadId d = (Inl (Error ''All fields are required''), st)) \<and>
   (\<not> (truthy_str (agent_name a) \<and> truthy_str (agent_email a)) \<longrightarrow>
      createSalesAgent st a = (Inl (Error ''Name and email are required''), st)) \<and>
   (\<not> (truthy_str (commentText c) \<and> truthy_str (author c)) \<longrightarrow>
      createComment st leadId c = (Inl (Error ''Comment text and author are required''), st))"
  using createLead_required [of d st] updateLeadById_required [of d st leadId]
    createSalesAgent_required [of a st] createComment_required [of c st leadId]
  by blast

theorem required_check_precedes_references_witness:
  "SalesAgent_findById store1 (Val oid2) = Inr None \<and>
   Lead_findById store1 oid2 = Inr None \<and>
   SalesAgent_findOne_email store1 (Val ''asha@example.com'') = Some agent1 \<and>
   createLead store1 (body1\<lparr>name := Undefined, salesAgent := Val oid2\<rparr>)
     = (Inl (Error ''All fields are required''), store1) \<and>
   updateLeadById store1 oid2 (body1\<lparr>name := Undefined, salesAgent := Val oid2\<rparr>)
     = (Inl (Error ''All fields are required''), store1) \<and>
   createSalesAgent store1 \<lparr>agent_name = Undefined, agent_email = Val ''asha@example.com''\<rparr>
     = (Inl (Error ''Name and email are required''), store1) \<and>
   createComment store1 oid2 \<lparr>commentText = Undefined, author = Val oid2\<rparr>
     = (Inl (Error ''Comment text and author are required''), store1)"
  using required_check_precedes_references
    [of "body1\<lparr>name := Undefined, salesAgent := Val oid2\<rparr>" store1 oid2
        "\<lparr>agent_name = Undefined, agent_email = Val ''asha@example.com''\<rparr>"
        "\<lparr>commentText = Undefined, author = Val oid2\<rparr>"]
  by (simp add: Lead_findById_def Lead_byId_def SalesAgent_byId_def
      SalesAgent_findOne_email_def store1_def agent1_def lead1_def)




section \<open>Creating a lead\<close>

lemma fold_max_bounds: "(a::nat) \<le> fold max xs a \<and> (\<forall>x\<in>set xs. x \<le> fold max xs a)"
proof (induction xs arbitrary: a)
  case Nil
  then show ?case by simp
next
  case (Cons y ys)
  from Cons.IH [of "max y a"] show ?case by auto
qed

lemma newObjectId_fresh: "newObjectId ids \<notin> set ids"
proof
  assume "newObjectId ids \<in> set ids"
  then have "newObjectId ids \<le> fold max ids 0" using fold_max_bounds [of 0 ids] by blast
  then show False by (simp add: newObjectId_def)
qed

lemma find_append_fresh: "\<forall>x\<in>set xs. \<not> P x \<Longrightarrow> P y \<Longrightarrow> find P (xs @ [y]) = Some y"
  by (induction xs) auto

lemma Lead_byId_appended:
  assumes new: "lead_id l = newObjectId (map lead_id (leads st))"
  shows "Lead_byId (st\<lparr>leads := leads st @ [l]\<rparr>) (lead_id l) = Some l"
proof -
  have "\<forall>x\<in>set (leads st). \<not> lead_id x = lead_id l"
  proof
    fix x assume "x \<in> set (leads st)"
    then have "lead_id x \<in> set (map lead_id (leads st))" by simp
    with newObjectId_fresh [of "map lead_id (leads st)"] new
    show "\<not> lead_id x = lead_id l" by metis
  qed
  then show ?thesis
    unfolding Lead_byId_def by (simp add: find_append_fresh)
qed

lemma SalesAgent_byId_leads_update [simp]:
  "SalesAgent_byId (st\<lparr>leads := ls\<rparr>) i = SalesAgent_byId st i"
  by (simp add: SalesAgent_byId_def)

lemma SalesAgent_byId_None:
  "(SalesAgent_byId st i = None) = (\<forall>a\<in>set (agents st). agent_id a \<noteq> i)"
  by (auto simp add: SalesAgent_byId_def find_None_iff)

text \<open>
  C1, as amended: when the \<open>salesAgent\<close> of a create-lead request is a non-empty value that
  identifies no existing SalesAgent, the operation fails and the store, the Lead collection
  included, is exactly as before. The error is "All fields are required" when one of the
  other six fields fails the required-field check; otherwise it is the store's cast error
  when the value is not the text of an ObjectId, and "Sales agent not found" when it is.
\<close>

theorem createLead_unknown_agent:
  assumes "salesAgent d = Val s" and "s \<noteq> []"
    and "\<not> (\<exists>a\<in>set (agents st). castObjectId s = Some (agent_id a))"
  shows "createLead st d =
     (Inl (if \<not> (truthy_str (name d) \<and> truthy_str (source d) \<and> truthy_str (status d) \<and>
                  truthy_num (timeToClose d) \<and> truthy_str (priority d) \<and>
                  truthy_arr (tags d))
           then Error ''All fields are required''
           else if castObjectId s = None then CastError s ''_id'' ''SalesAgent''
           else Error ''Sales agent not found''), st)"
proof (cases "castObjectId s")
  case None
  then show ?thesis unfolding createLead_def using assms by simp
next
  case (Some i)
  with assms(3) have "SalesAgent_byId st i = None"
    by (auto simp add: SalesAgent_byId_None)
  then show ?thesis unfolding createLead_def using assms Some by simp
qed

theorem createLead_unknown_agent_witness:
  "createLead store1 (body1\<lparr>salesAgent := Val oid2\<rparr>)
     = (Inl (Error ''Sales agent not found''), store1) \<and>
   createLead store1 (body1\<lparr>salesAgent := Val oid2, priority := Null\<rparr>)
     = (Inl (Error ''All fields are required''), store1) \<and>
   createLead store1 (body1\<lparr>salesAgent := Val ''xyz''\<rparr>)
     = (Inl (CastError ''xyz'' ''_id'' ''SalesAgent''), store1)"
proof -
  have xyz: "castObjectId ''xyz'' = None" by (simp add: castObjectId_def)
  show ?thesis
    using createLead_unknown_agent [of "body1\<lparr>salesAgent := Val oid2\<rparr>" oid2 store1]
      createLead_unknown_agent
        [of "body1\<lparr>salesAgent := Val oid2, priority := Null\<rparr>" oid2 store1]
      createLead_unknown_agent [of "body1\<lparr>salesAgent := Val ''xyz''\<rparr>" "''xyz''" store1]
    by (simp add: body1_def store1_def agent1_def xyz)
qed

theorem createLead_unknown_agent_counterexample:
  "SalesAgent_findById store1 (Val oid2) = Inr None \<and>
   createLead store1 (body1\<lparr>name := Undefined, salesAgent := Val oid2\<rparr>)
     = (Inl (Error ''All fields are required''), store1) \<and>
   createLead store1 (body1\<lparr>salesAgent := Val ''abc''\<rparr>)
     = (Inl (CastError ''abc'' ''_id'' ''SalesAgent''), store1)"
  by (simp add: createLead_def body1_def SalesAgent_byId_def store1_def agent1_def)

text \<open>
  C2, as amended: when all seven fields of a create-lead request are truthy (the strings not
  empty, \<open>timeToClose\<close> not 0, \<open>tags\<close> an array) and \<open>salesAgent\<close> identifies an existing
  SalesAgent, the operation succeeds, appends the lead under a new id to the Lead
  collection, and returns it with the agent's full record at \<open>salesAgent\<close>. A request
  whose \<open>timeToClose\<close> is 0 is rejected although the field is present.
\<close>

theorem createLead_succeeds:
  assumes "truthy_str (name d)" "truthy_str (source d)" "truthy_str (salesAgent d)"
    "truthy_str (status d)" "truthy_num (timeToClose d)" "truthy_str (priority d)"
    "truthy_arr (tags d)"
    and "salesAgent d = Val s" "castObjectId s = Some i" "SalesAgent_byId st i = Some a"
  shows "createLead st d =
     (Inr (Some \<lparr>name = name d, source = source d, salesAgent = Val a, status = status d,
                  timeToClose = timeToClose d, priority = priority d, tags = tags d,
                  lead_id = newObjectId (map lead_id (leads st))\<rparr>),
      st\<lparr>leads := leads st @
          [\<lparr>name = name d, source = source d, salesAgent = Val i, status = status d,
            timeToClose = timeToClose d, priority = priority d, tags = tags d,
            lead_id = newObjectId (map lead_id (leads st))\<rparr>]\<rparr>)"
proof -
  let ?l = "\<lparr>name = name d, source = source d, salesAgent = Val i, status = status d,
            timeToClose = timeToClose d, priority = priority d, tags = tags d,
            lead_id = newObjectId (map lead_id (leads st))\<rparr>"
  have save: "Lead_save st (new_Lead st d) = (Inr (), st\<lparr>leads := leads st @ [?l]\<rparr>)"
    using assms by (simp add: Lead_save_def new_Lead_def)
  have byId: "Lead_byId (st\<lparr>leads := leads st @ [?l]\<rparr>) (lead_id (new_Lead st d)) = Some ?l"
    using Lead_byId_appended [of ?l st] by (simp add: new_Lead_def)
  have pop: "populate (st\<lparr>leads := leads st @ [?l]\<rparr>) ?l =
      \<lparr>name = name d, source = source d, salesAgent = Val a, status = status d,
        timeToClose = timeToClose d, priority = priority d, tags = tags d,
        lead_id = newObjectId (map lead_id (leads st))\<rparr>"
    using assms by (simp add: populate_def)
  show ?thesis
    unfolding createLead_def using assms save byId pop by (simp add: Let_def)
qed

theorem createLead_succeeds_witness:
  "createLead store1 body1 =
     (Inr (Some \<lparr>name = Val ''Acme Ltd'', source = Val ''Referral'', salesAgent = Val agent1,
                  status = Val ''Closed'', timeToClose = Val 7, priority = Val ''Low'',
                  tags = Val [''vip''], lead_id = 2\<rparr>),
      \<lparr>leads = [lead1,
                 \<lparr>name = Val ''Acme Ltd'', source = Val ''Referral'', salesAgent = Val 1,
                   status = Val ''Closed'', timeToClose = Val 7, priority = Val ''Low'',
                   tags = Val [''vip''], lead_id = 2\<rparr>],
        agents = [agent1], comments = []\<rparr>)"
  using createLead_succeeds [of body1 oid1 1 store1 agent1]
  by (simp add: body1_def store1_def SalesAgent_byId_def agent1_def lead1_def newObjectId_def)

theorem createLead_zero_timeToClose_counterexample:
  "SalesAgent_findById store1 (salesAgent body1) = Inr (Some agent1) \<and>
   timeToClose (body1\<lparr>timeToClose := Val 0\<rparr>) = Val 0 \<and>
   fst (createLead store1 (body1\<lparr>timeToClose := Val 0\<rparr>))
     = Inl (Error ''All fields are required'') \<and>
   leads (snd (createLead store1 (body1\<lparr>timeToClose := Val 0\<rparr>))) = [lead1]"
  by (simp add: createLead_def body1_def SalesAgent_byId_def store1_def agent1_def)

section \<open>Creating a sales agent\<close>

lemma createSalesAgent_fresh_email:
  assumes "createSalesAgent st d = (Inr a, st')"
  shows "truthy_str (agent_name d) \<and> truthy_str (agent_email d) \<and>
         (\<forall>x\<in>set (agents st). agent_email x \<noteq> agent_email d) \<and>
         a = \<lparr>agent_name = agent_name d, agent_email = agent_email d,
               agent_id = newObjectId (map agent_id (agents st))\<rparr> \<and>
         st' = st\<lparr>agents := agents st @ [a]\<rparr>"
  using assms unfolding createSalesAgent_def SalesAgent_findOne_email_def
  by (auto simp: Let_def find_None_iff split: if_splits option.splits)

lemma createSalesAgent_failure_unchanged:
  "fst (createSalesAgent st d) = Inl e \<Longrightarrow> snd (createSalesAgent st d) = st"
  unfolding createSalesAgent_def
  by (auto simp: Let_def split: if_splits option.splits)

lemma createSalesAgent_emails_distinct:
  assumes "distinct (map agent_email (agents st))"
  shows "distinct (map agent_email (agents (snd (createSalesAgent st d))))"
proof (cases "createSalesAgent st d")
  case (Pair r st')
  show ?thesis
  proof (cases r)
    case (Inl e)
    with Pair createSalesAgent_failure_unchanged [of st d e] assms show ?thesis by simp
  next
    case (Inr a)
    with Pair createSalesAgent_fresh_email [of st d a st'] assms show ?thesis by auto
  qed
qed

lemma createSalesAgent_ids_distinct:
  assumes "distinct (map agent_id (agents st))"
  shows "distinct (map agent_id (agents (snd (createSalesAgent st d))))"
proof (cases "createSalesAgent st d")
  case (Pair r st')
  show ?thesis
  proof (cases r)
    case (Inl e)
    with Pair createSalesAgent_failure_unchanged [of st d e] assms show ?thesis by simp
  next
    case (Inr a)
    with Pair createSalesAgent_fresh_email [of st d a st'] assms
      newObjectId_fresh [of "map agent_id (agents st)"] show ?thesis by auto
  qed
qed

text \<open>
  C4, as amended: when a create-agent request has succeeded, a second request with the same
  email fails and leaves the store as it is, so the first agent is still listed; the error
  is "Sales agent with this email already exists" when the second request has a non-empty
  name, and "Name and email are required" when its name is missing, null or empty. Creating
  agents keeps the emails of the collection distinct.
\<close>

theorem second_agent_with_same_email:
  assumes "createSalesAgent st d1 = (Inr a, st1)" and "agent_email d2 = agent_email d1"
  shows "createSalesAgent st1 d2 =
           (Inl (if truthy_str (agent_name d2)
                 then Error ''Sales agent with this email already exists''
                 else Error ''Name and email are required''), st1) \<and>
         a \<in> set (readAllSalesAgents (snd (createSalesAgent st1 d2))) \<and>
         (distinct (map agent_email (agents st)) \<longrightarrow>
            distinct (map agent_email (agents st1)) \<and>
            distinct (map agent_email (agents (snd (createSalesAgent st1 d2)))))"
proof -
  note first = createSalesAgent_fresh_email [OF assms(1)]
  have "a \<in> set (agents st1)" and "agent_email a = agent_email d2"
    using first assms(2) by auto
  then obtain b where found: "SalesAgent_findOne_email st1 (agent_email d2) = Some b"
    unfolding SalesAgent_findOne_email_def
    by (cases "find (\<lambda>x. agent_email x = agent_email d2) (agents st1)")
       (auto simp: find_None_iff)
  have truthy: "truthy_str (agent_email d2)" using first assms(2) by simp
  have second: "createSalesAgent st1 d2 =
      (Inl (if truthy_str (agent_name d2)
            then Error ''Sales agent with this email already exists''
            else Error ''Name and email are required''), st1)"
    unfolding createSalesAgent_def using found truthy by simp
  have d: "distinct (map agent_email (agents st)) \<longrightarrow> distinct (map agent_email (agents st1))"
    using createSalesAgent_emails_distinct [of st d1] assms(1) by simp
  from second \<open>a \<in> set (agents st1)\<close> d show ?thesis
    by (simp add: readAllSalesAgents_def)
qed

theorem second_agent_with_same_email_witness:
  "createSalesAgent store0 \<lparr>agent_name = Val ''A'', agent_email = Val ''a@x.com''\<rparr>
     = (Inr agentA, storeA) \<and>
   createSalesAgent storeA \<lparr>agent_name = Val ''B'', agent_email = Val ''a@x.com''\<rparr>
     = (Inl (Error ''Sales agent with this email already exists''), storeA) \<and>
   createSalesAgent storeA \<lparr>agent_name = Val [], agent_email = Val ''a@x.com''\<rparr>
     = (Inl (Error ''Name and email are required''), storeA) \<and>
   agentA \<in> set (readAllSalesAgents storeA) \<and>
   distinct (map agent_email (agents storeA))"
proof -
  have first: "createSalesAgent store0 \<lparr>agent_name = Val ''A'', agent_email = Val ''a@x.com''\<rparr>
     = (Inr agentA, storeA)"
    by (simp add: createSalesAgent_def SalesAgent_findOne_email_def store0_def storeA_def
        agentA_def newObjectId_def Let_def)
  from second_agent_with_same_email
    [OF first, of "\<lparr>agent_name = Val ''B'', agent_email = Val ''a@x.com''\<rparr>"]
    second_agent_with_same_email
    [OF first, of "\<lparr>agent_name = Val [], agent_email = Val ''a@x.com''\<rparr>"]
  show ?thesis using first by (auto simp add: store0_def)
qed

theorem second_agent_without_name_counterexample:
  "createSalesAgent store0 \<lparr>agent_name = Val ''A'', agent_email = Val ''a@x.com''\<rparr>
     = (Inr agentA, storeA) \<and>
   createSalesAgent storeA \<lparr>agent_name = Undefined, agent_email = Val ''a@x.com''\<rparr>
     = (Inl (Error ''Name and email are required''), storeA)"
  by (simp add: createSalesAgent_def SalesAgent_findOne_email_def store0_def storeA_def
      agentA_def newObjectId_def Let_def)

section \<open>Updating a lead that does not exist\<close>

lemma Lead_byId_None:
  "(Lead_byId st i = None) = (\<forall>l\<in>set (leads st). lead_id l \<noteq> i)"
  by (auto simp add: Lead_byId_def find_None_iff)

lemma post_leads_id_replies:
  "post_leads_id st leadId d =
     (case fst (updateLeadById st leadId d) of
        Inr (Some lead) \<Rightarrow> Json 200 lead
      | Inr None \<Rightarrow> JsonError 404 ''Lead not found''
      | Inl e \<Rightarrow> JsonError 400 (message e),
      snd (updateLeadById st leadId d))"
  by (simp add: post_leads_id_def split: prod.splits sum.splits option.splits)

text \<open>
  C9, as amended: when the request passes the required-field check and the sales-agent
  check and the target identifies no stored lead, then, if the target is the text of an
  ObjectId, \<^verbatim>\<open>updateLeadById\<close> returns null on its normal return path, raising no error
  (in particular no not-found error of its own), the store is unchanged, and the route
  answers 404 "Lead not found"; if the target is not the text of
  an ObjectId, the store's cast error is raised instead, the store is unchanged, and the
  route answers 400 with that error's message.
\<close>

theorem update_of_absent_lead:
  assumes "truthy_str (name d)" "truthy_str (source d)" "truthy_str (salesAgent d)"
    "truthy_str (status d)" "truthy_num (timeToClose d)" "truthy_str (priority d)"
    "truthy_arr (tags d)"
    and "salesAgent d = Val s" "castObjectId s = Some i" "SalesAgent_byId st i = Some a"
    and "\<not> (\<exists>l\<in>set (leads st). castObjectId leadId = Some (lead_id l))"
  shows "updateLeadById st leadId d =
           (case castObjectId leadId of
              None \<Rightarrow> Inl (CastError leadId ''_id'' ''Lead'')
            | Some j \<Rightarrow> Inr None, st) \<and>
         post_leads_id st leadId d =
           (case castObjectId leadId of
              None \<Rightarrow> JsonError 400 (message (CastError leadId ''_id'' ''Lead''))
            | Some j \<Rightarrow> JsonError 404 ''Lead not found'', st)"
proof (cases "castObjectId leadId")
  case None
  then have "Lead_findByIdAndUpdate st leadId d = (Inl (CastError leadId ''_id'' ''Lead''), st)"
    by (simp add: Lead_findByIdAndUpdate_def)
  then have "updateLeadById st leadId d = (Inl (CastError leadId ''_id'' ''Lead''), st)"
    unfolding updateLeadById_def using assms by simp
  with None show ?thesis by (simp add: post_leads_id_def)
next
  case (Some j)
  with assms(11) have "Lead_byId st j = None" by (auto simp add: Lead_byId_None)
  then have "Lead_findByIdAndUpdate st leadId d = (Inr None, st)"
    using assms Some by (simp add: Lead_findByIdAndUpdate_def)
  then have "updateLeadById st leadId d = (Inr None, st)"
    unfolding updateLeadById_def using assms by simp
  with Some show ?thesis by (simp add: post_leads_id_def)
qed

theorem update_of_absent_lead_witness:
  "updateLeadById store1 oid2 body1 = (Inr None, store1) \<and>
   post_leads_id store1 oid2 body1 = (JsonError 404 ''Lead not found'', store1)"
  using update_of_absent_lead [of body1 oid1 1 store1 agent1 oid2]
  by (simp add: body1_def store1_def SalesAgent_byId_def agent1_def lead1_def)

theorem update_of_absent_lead_counterexample:
  "map lead_id (leads store1) = [1] \<and> castObjectId ''abc'' = None \<and>
   SalesAgent_findById store1 (salesAgent body1) = Inr (Some agent1) \<and>
   updateLeadById store1 ''abc'' body1 = (Inl (CastError ''abc'' ''_id'' ''Lead''), store1) \<and>
   post_leads_id store1 ''abc'' body1 =
     (JsonError 400 (message (CastError ''abc'' ''_id'' ''Lead'')), store1)"
  by (simp add: post_leads_id_def updateLeadById_def Lead_findByIdAndUpdate_def body1_def
      store1_def lead1_def agent1_def SalesAgent_byId_def)

section \<open>Listing leads\<close>

lemma castQuery_snoc:
  "castQuery (q @ [c]) =
     (case castQuery q of
        Inl e \<Rightarrow> Inl e
      | Inr fs \<Rightarrow> (case castCond c of Inl e \<Rightarrow> Inl e | Inr f \<Rightarrow> Inr (fs @ [f])))"
  by (induction q) (auto split: sum.splits)

lemma castQuery_assignIf_str:
  assumes "k \<in> {''status'', ''source''}" and "castQuery q = Inr fs"
  shows "\<exists>f. castQuery (assignIf k x q) = Inr (fs @ f) \<and>
             (\<forall>l. list_all (\<lambda>p. p l) f = keyHolds x (\<lambda>v. Lead_path k l = Val v))"
  using assms by (cases x) (auto simp: castQuery_snoc castCond_def)

lemma castQuery_assignIf_salesAgent:
  assumes "\<forall>v. x = Val v \<and> v \<noteq> [] \<longrightarrow> castObjectId v \<noteq> None"
  shows "\<exists>f. castQuery (assignIf ''salesAgent'' x []) = Inr f \<and>
             (\<forall>l. list_all (\<lambda>p. p l) f =
                keyHolds x (\<lambda>v. case castObjectId v of None \<Rightarrow> False
                                 | Some i \<Rightarrow> salesAgent l = Val i))"
  using assms by (cases x) (auto simp: castCond_def)

lemma readAllLeads_filters:
  assumes "\<forall>v. queryParams ''salesAgent'' = Val v \<and> v \<noteq> [] \<longrightarrow> castObjectId v \<noteq> None"
  shows "readAllLeads st queryParams =
     Inr (map (populate st) (filter (satisfies_filters queryParams) (leads st)))"
proof -
  from castQuery_assignIf_salesAgent [OF assms] obtain f1 where
    1: "castQuery (assignIf ''salesAgent'' (queryParams ''salesAgent'') []) = Inr f1"
    and p1: "\<And>l. list_all (\<lambda>p. p l) f1 = keyHolds (queryParams ''salesAgent'')
        (\<lambda>v. case castObjectId v of None \<Rightarrow> False | Some i \<Rightarrow> salesAgent l = Val i)"
    by blast
  from castQuery_assignIf_str [OF _ 1, of "''status''" "queryParams ''status''"] obtain f2 where
    2: "castQuery (assignIf ''status'' (queryParams ''status'')
          (assignIf ''salesAgent'' (queryParams ''salesAgent'') [])) = Inr (f1 @ f2)"
    and p2: "\<And>l. list_all (\<lambda>p. p l) f2 = keyHolds (queryParams ''status'') (\<lambda>v. status l = Val v)"
    by (auto simp: Lead_path_def)
  from castQuery_assignIf_str [OF _ 2, of "''source''" "queryParams ''source''"] obtain f3 where
    3: "castQuery (assignIf ''source'' (queryParams ''source'')
         (assignIf ''status'' (queryParams ''status'')
          (assignIf ''salesAgent'' (queryParams ''salesAgent'') []))) = Inr ((f1 @ f2) @ f3)"
    and p3: "\<And>l. list_all (\<lambda>p. p l) f3 = keyHolds (queryParams ''source'') (\<lambda>v. source l = Val v)"
    by (auto simp: Lead_path_def)
  have "\<And>l. list_all (\<lambda>p. p l) ((f1 @ f2) @ f3) = satisfies_filters queryParams l"
    by (simp add: p1 p2 p3 satisfies_filters_def)
  then show ?thesis
    unfolding readAllLeads_def Lead_find_def by (simp add: 3 Let_def)
qed

text \<open>
  C5, as amended: for every store and every choice of the parameters \<open>salesAgent\<close>,
  \<open>status\<close>, \<open>source\<close> in which \<open>salesAgent\<close>, when it has a non-empty value, is the text of
  an ObjectId, list-leads returns exactly the leads (in the order of the collection, each
  with its agent resolved) that satisfy the conjunction of the equality predicates over the
  keys supplied with a non-empty value. With no parameter it returns every lead, with
  \<open>status=Closed\<close> exactly the leads whose status is "Closed". A parameter supplied with
  the empty string imposes no filter, and a \<open>salesAgent\<close> that is not the text of an
  ObjectId makes the call fail: the counterexample.
\<close>

theorem readAllLeads_returns_matches:
  assumes "\<forall>v. queryParams ''salesAgent'' = Val v \<and> v \<noteq> [] \<longrightarrow> castObjectId v \<noteq> None"
  shows "readAllLeads st queryParams =
           Inr (map (populate st) (filter (satisfies_filters queryParams) (leads st))) \<and>
         readAllLeads st (\<lambda>k. Undefined) = Inr (map (populate st) (leads st)) \<and>
         readAllLeads st ((\<lambda>k. Undefined)(''status'' := Val ''Closed''))
           = Inr (map (populate st) (filter (\<lambda>l. status l = Val ''Closed'') (leads st)))"
proof -
  have closed: "satisfies_filters ((\<lambda>k. Undefined)(''status'' := Val ''Closed''))
      = (\<lambda>l. status l = Val ''Closed'')"
    by (rule ext) (simp add: satisfies_filters_def)
  show ?thesis
    using assms readAllLeads_filters [of queryParams st]
      readAllLeads_filters [of "\<lambda>k. Undefined" st]
      readAllLeads_filters [of "(\<lambda>k. Undefined)(''status'' := Val ''Closed'')" st]
    by (simp add: closed satisfies_filters_def)
qed

theorem readAllLeads_returns_matches_witness:
  "readAllLeads store2 ((\<lambda>k. Undefined)(''status'' := Val ''Closed'', ''salesAgent'' := Val oid1))
     = Inr (map (populate store2) [lead2, lead3])"
  using readAllLeads_returns_matches
    [of "(\<lambda>k. Undefined)(''status'' := Val ''Closed'', ''salesAgent'' := Val oid1)" store2]
  by (simp add: satisfies_filters_def store2_def lead1_def lead2_def lead3_def lead4_def)

theorem readAllLeads_empty_parameter_counterexample:
  "readAllLeads store1 ((\<lambda>k. Undefined)(''status'' := Val [])) = Inr [populate store1 lead1] \<and>
   filter (\<lambda>l. status l = Val []) (leads store1) = [] \<and>
   readAllLeads store1 ((\<lambda>k. Undefined)(''salesAgent'' := Val ''abc''))
     = Inl (CastError ''abc'' ''salesAgent'' ''Lead'')"
  by (simp add: readAllLeads_def Lead_find_def castCond_def store1_def lead1_def)

section \<open>The reports\<close>

lemma readPipelineReport_count:
  "readPipelineReport st =
     Inr \<lparr>totalLeadsInPipeline = length (filter (\<lambda>l. status l \<noteq> Val ''Closed'') (leads st))\<rparr>"
  by (simp add: readPipelineReport_def Lead_countDocuments_def Lead_find_def castCond_def
      Lead_path_def)


text \<open>
  C6: the pipeline report is a single count, the number of leads whose status is not
  "Closed". It is a function of the Lead collection alone: as long as no write changes that
  collection, every call returns the same count.
\<close>

theorem pipeline_report_counts_open_leads:
  "readPipelineReport st =
     Inr \<lparr>totalLeadsInPipeline = length (filter (\<lambda>l. status l \<noteq> Val ''Closed'') (leads st))\<rparr> \<and>
   (leads st' = leads st \<longrightarrow> readPipelineReport st' = readPipelineReport st)"
  by (simp add: readPipelineReport_count)

theorem pipeline_report_counts_open_leads_witness:
  "readPipelineReport store2 = Inr \<lparr>totalLeadsInPipeline = 2\<rparr> \<and>
   readPipelineReport (store2\<lparr>agents := []\<rparr>) = readPipelineReport store2"
  using pipeline_report_counts_open_leads [of store2 "store2\<lparr>agents := []\<rparr>"]
  by (simp add: store2_def lead1_def lead2_def lead3_def lead4_def)

lemma report_of_keys:
  "project_report (unwind_salesAgent (lookup_salesagents st (map (\<lambda>k. (k, cnt k)) ks))) =
   map (\<lambda>a. \<lparr>report_salesAgent = agent_name a, report_count = cnt (Val (agent_id a))\<rparr>)
     (concat (map (\<lambda>k. filter (\<lambda>a. Val (agent_id a) = k) (agents st)) ks))"
  by (induction ks)
     (auto simp: project_report_def unwind_salesAgent_def lookup_salesagents_def)

lemma distinct_agents_of_keys:
  "distinct ks \<Longrightarrow> distinct ags \<Longrightarrow>
   distinct (concat (map (\<lambda>k. filter (\<lambda>a. Val (agent_id a) = k) ags) ks))"
  by (induction ks) auto

lemma set_agents_of_keys:
  "set (concat (map (\<lambda>k. filter (\<lambda>a. Val (agent_id a) = k) ags) ks))
     = {a \<in> set ags. Val (agent_id a) \<in> set ks}"
  by (induction ks) auto

lemma closedLeads_group:
  "length (filter (\<lambda>l. salesAgent l = Val i) (match_status ''Closed'' (leads st)))
     = closedLeads st i"
  by (simp add: match_status_def closedLeads_def conj_commute)

lemma closedLeads_pos:
  "(1 \<le> closedLeads st i) = (Val i \<in> salesAgent ` set (match_status ''Closed'' (leads st)))"
proof -
  have "(0 < closedLeads st i) =
      (\<exists>l\<in>set (leads st). status l = Val ''Closed'' \<and> salesAgent l = Val i)"
    unfolding closedLeads_def by (auto simp add: filter_empty_conv)
  then show ?thesis by (force simp: match_status_def)
qed

lemma writes_keep_agents:
  "agents (snd (createLead st d)) = agents st"
  "agents (snd (updateLeadById st leadId d)) = agents st"
  "agents (snd (createComment st leadId c)) = agents st"
  by (auto simp: createLead_def updateLeadById_def createComment_def Lead_save_def
      Lead_findByIdAndUpdate_def Comment_save_def Let_def
      split: sum.splits option.splits prod.splits)

text \<open>
  C7: in a store whose agents have distinct ids (the store's own invariant on \<open>_id\<close>:
  \<open>createSalesAgent\<close> keeps it and the other writes leave the agents alone), the closed-by-agent report is the list of entries of a
  duplicate-free list of agents: exactly the agents with at least one Closed lead. So an
  agent with no Closed lead has no entry, and an agent with N Closed leads has exactly one,
  whose count is N and whose \<open>salesAgent\<close> is the agent's name.
\<close>

theorem closed_by_agent_report:
  assumes "distinct (map agent_id (agents st))"
  shows "\<exists>as. readClosedLeadsByAgent st =
            map (\<lambda>a. \<lparr>report_salesAgent = agent_name a,
                       report_count = closedLeads st (agent_id a)\<rparr>) as \<and>
          distinct as \<and>
          set as = {a \<in> set (agents st). 1 \<le> closedLeads st (agent_id a)}"
proof -
  let ?cs = "match_status ''Closed'' (leads st)"
  let ?ks = "remdups (map salesAgent ?cs)"
  let ?as = "concat (map (\<lambda>k. filter (\<lambda>a. Val (agent_id a) = k) (agents st)) ?ks)"
  have "readClosedLeadsByAgent st =
      map (\<lambda>a. \<lparr>report_salesAgent = agent_name a,
          report_count = length (filter (\<lambda>l. salesAgent l = Val (agent_id a)) ?cs)\<rparr>) ?as"
    unfolding readClosedLeadsByAgent_def group_salesAgent_def
    by (rule report_of_keys)
  then have 1: "readClosedLeadsByAgent st =
      map (\<lambda>a. \<lparr>report_salesAgent = agent_name a,
                 report_count = closedLeads st (agent_id a)\<rparr>) ?as"
    by (simp add: closedLeads_group)
  have "distinct (agents st)" using assms by (rule distinct_map [THEN iffD1, THEN conjunct1])
  then have 2: "distinct ?as" by (simp add: distinct_agents_of_keys)
  have 3: "set ?as = {a \<in> set (agents st). 1 \<le> closedLeads st (agent_id a)}"
    by (simp only: set_agents_of_keys closedLeads_pos set_remdups set_map)
  from 1 2 3 show ?thesis by blast
qed

theorem closed_by_agent_report_witness:
  "distinct (map agent_id (agents store2)) \<and>
   closedLeads store2 1 = 2 \<and> closedLeads store2 2 = 0 \<and>
   readClosedLeadsByAgent store2 = [\<lparr>report_salesAgent = Val ''Asha'', report_count = 2\<rparr>] \<and>
   (\<exists>as. readClosedLeadsByAgent store2 =
            map (\<lambda>a. \<lparr>report_salesAgent = agent_name a,
                       report_count = closedLeads store2 (agent_id a)\<rparr>) as \<and>
          distinct as \<and> set as = {a \<in> set (agents store2). 1 \<le> closedLeads store2 (agent_id a)})"
proof -
  have d: "distinct (map agent_id (agents store2))"
    by (simp add: store2_def agent1_def agent2_def)
  have r: "readClosedLeadsByAgent store2 = [\<lparr>report_salesAgent = Val ''Asha'', report_count = 2\<rparr>]"
    by (simp add: readClosedLeadsByAgent_def project_report_def unwind_salesAgent_def
        lookup_salesagents_def group_salesAgent_def match_status_def store2_def
        lead1_def lead2_def lead3_def lead4_def agent1_def agent2_def)
  have c: "closedLeads store2 1 = 2 \<and> closedLeads store2 2 = 0"
    by (simp add: closedLeads_def store2_def lead1_def lead2_def lead3_def lead4_def)
  from closed_by_agent_report [OF d] d r c show ?thesis by simp
qed

end
